theory Spec2Isabelle
  imports Main "HOL-Library.AList"
begin

section \<open>The pgAdmin server registry of nba-stats\<close>

text \<open>
  The module \<^verbatim>\<open>services/pgadmin/servers.py\<close> holds a docstring and one assignment:
  \<^verbatim>\<open>
  SERVERS = {
      '1': {
          'name': 'nba-stats-db',
          'group_name': 'Servers',
          'host': 'postgres',
          'port': 5432,
          'maintenance_db': 'postgres',
          'username': 'postgres',
          'password': 'postgres',
          'ssl_mode': 'prefer',
          'connect_timeout': 10,
          'save_password': True,
      }
  }
  \<close>
  It defines no function and no class. The values written in the inner dict are string,
  integer and boolean literals.
\<close>

subsection \<open>Python values and dicts\<close>

datatype pyval = PyStr string | PyInt int | PyBool bool

text \<open>
  A Python dict keeps its keys in insertion order and holds each key once. It is an
  association list here: storing under a key that is present replaces the value where it
  stands, storing under a new key appends the pair.
\<close>

type_synonym 'v pydict = "(string \<times> 'v) list"

definition dict_setitem :: "'v pydict \<Rightarrow> string \<Rightarrow> 'v \<Rightarrow> 'v pydict" where
  "dict_setitem d k v = AList.update k v d"

text \<open>
  A dict display \<^verbatim>\<open>{k1: v1, ..., kn: vn}\<close> starts from the empty dict and stores the
  pairs from left to right, so a key written twice keeps the last value.
\<close>

definition dict_display :: "(string \<times> 'v) list \<Rightarrow> 'v pydict" where
  "dict_display kvs = foldl (\<lambda>d (k, v). dict_setitem d k v) [] kvs"

definition dict_get :: "'v pydict \<Rightarrow> string \<Rightarrow> 'v option" where
  "dict_get d k = map_of d k"

definition dict_keys :: "'v pydict \<Rightarrow> string list" where
  "dict_keys d = map fst d"

text \<open>The test \<^verbatim>\<open>k in d\<close>.\<close>

definition dict_contains :: "'v pydict \<Rightarrow> string \<Rightarrow> bool" where
  "dict_contains d k \<longleftrightarrow> k \<in> set (dict_keys d)"

definition dict_items :: "'v pydict \<Rightarrow> (string \<times> 'v) list" where
  "dict_items d = d"

definition dict_len :: "'v pydict \<Rightarrow> nat" where
  "dict_len d = length d"

subsection \<open>The constant\<close>

text \<open>The key and value pairs of the inner display, in the order of the source lines 8 to 17.\<close>

definition SERVERS_1_display :: "(string \<times> pyval) list" where
  "SERVERS_1_display =
     [(''name'', PyStr ''nba-stats-db''),
      (''group_name'', PyStr ''Servers''),
      (''host'', PyStr ''postgres''),
      (''port'', PyInt 5432),
      (''maintenance_db'', PyStr ''postgres''),
      (''username'', PyStr ''postgres''),
      (''password'', PyStr ''postgres''),
      (''ssl_mode'', PyStr ''prefer''),
      (''connect_timeout'', PyInt 10),
      (''save_password'', PyBool True)]"

text \<open>The pairs of the outer display: one key, \<^verbatim>\<open>'1'\<close>, bound to the inner dict.\<close>

definition SERVERS_display :: "(string \<times> pyval pydict) list" where
  "SERVERS_display = [(''1'', dict_display SERVERS_1_display)]"

definition SERVERS :: "pyval pydict pydict" where
  "SERVERS = dict_display SERVERS_display"

subsection \<open>Evaluating the displays\<close>

lemma SERVERS_1_value:
  "dict_display SERVERS_1_display =
     [(''name'', PyStr ''nba-stats-db''),
      (''group_name'', PyStr ''Servers''),
      (''host'', PyStr ''postgres''),
      (''port'', PyInt 5432),
      (''maintenance_db'', PyStr ''postgres''),
      (''username'', PyStr ''postgres''),
      (''password'', PyStr ''postgres''),
      (''ssl_mode'', PyStr ''prefer''),
      (''connect_timeout'', PyInt 10),
      (''save_password'', PyBool True)]"
  by (simp add: dict_display_def SERVERS_1_display_def dict_setitem_def)

lemma SERVERS_value: "SERVERS = [(''1'', dict_display SERVERS_1_display)]"
  by (simp add: SERVERS_def SERVERS_display_def dict_display_def dict_setitem_def)

text \<open>
  Whatever pairs a display lists, the dict it builds holds each key once, and a display
  that writes no key twice builds a dict with exactly the pairs written.
\<close>

lemma foldl_setitem_distinct:
  "distinct (map fst d) \<Longrightarrow>
   distinct (map fst (foldl (\<lambda>d (k, v). dict_setitem d k v) d kvs))"
proof (induction kvs arbitrary: d)
  case Nil
  then show ?case by simp
next
  case (Cons kv kvs)
  obtain k v where kv: "kv = (k, v)" by (cases kv)
  from Cons.prems have "distinct (map fst (dict_setitem d k v))"
    by (simp add: dict_setitem_def distinct_update)
  then show ?case
    using Cons.IH kv by simp
qed

lemma dict_display_keys_distinct: "distinct (dict_keys (dict_display kvs))"
  by (simp add: dict_keys_def dict_display_def foldl_setitem_distinct)

lemma setitem_fresh: "k \<notin> fst ` set d \<Longrightarrow> dict_setitem d k v = d @ [(k, v)]"
  by (induction d) (auto simp: dict_setitem_def)

lemma foldl_setitem_fresh:
  "distinct (map fst (d @ kvs)) \<Longrightarrow>
   foldl (\<lambda>d (k, v). dict_setitem d k v) d kvs = d @ kvs"
proof (induction kvs arbitrary: d)
  case Nil
  then show ?case by simp
next
  case (Cons kv kvs)
  obtain k v where kv: "kv = (k, v)" by (cases kv)
  from Cons.prems kv have fresh: "k \<notin> fst ` set d"
    by auto
  from Cons.prems kv have "distinct (map fst ((d @ [(k, v)]) @ kvs))"
    by simp
  then have "foldl (\<lambda>d (k, v). dict_setitem d k v) (d @ [(k, v)]) kvs = (d @ [(k, v)]) @ kvs"
    by (rule Cons.IH)
  then show ?case
    using kv fresh by (simp add: setitem_fresh)
qed

lemma dict_display_distinct: "distinct (map fst kvs) \<Longrightarrow> dict_display kvs = kvs"
  using foldl_setitem_fresh [of "[]" kvs] by (simp add: dict_display_def)

subsection \<open>The single profile\<close>

text \<open>
  Claim C1. The module body has no step that can raise: it evaluates two dict displays
  whose keys are string literals. The registry it binds holds exactly one profile, and that
  profile has name "nba-stats-db", host "postgres", port 5432, ssl_mode "prefer",
  connect_timeout 10 and save_password True.
\<close>

theorem SERVERS_single_profile:
  "dict_len SERVERS = 1 \<and>
   (\<exists>k p. dict_items SERVERS = [(k, p)] \<and>
      dict_get p ''name'' = Some (PyStr ''nba-stats-db'') \<and>
      dict_get p ''host'' = Some (PyStr ''postgres'') \<and>
      dict_get p ''port'' = Some (PyInt 5432) \<and>
      dict_get p ''ssl_mode'' = Some (PyStr ''prefer'') \<and>
      dict_get p ''connect_timeout'' = Some (PyInt 10) \<and>
      dict_get p ''save_password'' = Some (PyBool True))"
  by (simp add: SERVERS_value SERVERS_1_value dict_len_def dict_items_def dict_get_def)

subsection \<open>Invariants of every entry\<close>

text \<open>
  Claim C2. For every entry of the registry, the port field is an integer between 1 and
  65535, both included.
\<close>

theorem SERVERS_port_range:
  "\<forall>e \<in> set (dict_items SERVERS).
     \<exists>n. dict_get (snd e) ''port'' = Some (PyInt n) \<and> 1 \<le> n \<and> n \<le> 65535"
  by (simp add: SERVERS_value SERVERS_1_value dict_items_def dict_get_def)

theorem SERVERS_port_range_witness:
  "(''1'', dict_display SERVERS_1_display) \<in> set (dict_items SERVERS) \<and>
   (\<exists>n. dict_get (dict_display SERVERS_1_display) ''port'' = Some (PyInt n) \<and>
        1 \<le> n \<and> n \<le> 65535)"
proof -
  have m: "(''1'', dict_display SERVERS_1_display) \<in> set (dict_items SERVERS)"
    by (simp add: SERVERS_value dict_items_def)
  from bspec [OF SERVERS_port_range m] show ?thesis
    using m by simp
qed

text \<open>
  Claim C3. For every entry of the registry, the connect_timeout field is an integer
  greater than 0.
\<close>

theorem SERVERS_connect_timeout_positive:
  "\<forall>e \<in> set (dict_items SERVERS).
     \<exists>n. dict_get (snd e) ''connect_timeout'' = Some (PyInt n) \<and> 0 < n"
  by (simp add: SERVERS_value SERVERS_1_value dict_items_def dict_get_def)

theorem SERVERS_connect_timeout_positive_witness:
  "(''1'', dict_display SERVERS_1_display) \<in> set (dict_items SERVERS) \<and>
   (\<exists>n. dict_get (dict_display SERVERS_1_display) ''connect_timeout'' = Some (PyInt n) \<and>
        0 < n)"
proof -
  have m: "(''1'', dict_display SERVERS_1_display) \<in> set (dict_items SERVERS)"
    by (simp add: SERVERS_value dict_items_def)
  from bspec [OF SERVERS_connect_timeout_positive m] show ?thesis
    using m by simp
qed

text \<open>
  Claim C4. For every entry of the registry, the ssl_mode field is one of the six strings
  disable, allow, prefer, require, verify-ca and verify-full.
\<close>

theorem SERVERS_ssl_mode_recognised:
  "\<forall>e \<in> set (dict_items SERVERS).
     \<exists>s. dict_get (snd e) ''ssl_mode'' = Some (PyStr s) \<and>
       s \<in> {''disable'', ''allow'', ''prefer'', ''require'', ''verify-ca'', ''verify-full''}"
  by (simp add: SERVERS_value SERVERS_1_value dict_items_def dict_get_def)

theorem SERVERS_ssl_mode_recognised_witness:
  "(''1'', dict_display SERVERS_1_display) \<in> set (dict_items SERVERS) \<and>
   (\<exists>s. dict_get (dict_display SERVERS_1_display) ''ssl_mode'' = Some (PyStr s) \<and>
       s \<in> {''disable'', ''allow'', ''prefer'', ''require'', ''verify-ca'', ''verify-full''})"
proof -
  have m: "(''1'', dict_display SERVERS_1_display) \<in> set (dict_items SERVERS)"
    by (simp add: SERVERS_value dict_items_def)
  from bspec [OF SERVERS_ssl_mode_recognised m] show ?thesis
    using m by simp
qed

text \<open>
  Claim C5. The id of a profile is the key under which the registry holds it. Every id
  of the registry is a non-empty string, no two entries have the same id, and the display
  in the source writes no id twice, so that no profile written there is replaced by a later
  one.
\<close>

theorem SERVERS_ids_nonempty_unique:
  "(\<forall>k \<in> set (dict_keys SERVERS). k \<noteq> []) \<and>
   distinct (dict_keys SERVERS) \<and>
   distinct (map fst SERVERS_display) \<and>
   dict_items SERVERS = SERVERS_display"
  by (simp add: SERVERS_value SERVERS_display_def dict_keys_def dict_items_def)

theorem SERVERS_ids_nonempty_unique_witness:
  "''1'' \<in> set (dict_keys SERVERS) \<and> ''1'' \<noteq> []"
proof -
  have m: "''1'' \<in> set (dict_keys SERVERS)"
    by (simp add: SERVERS_value dict_keys_def)
  from bspec [OF conjunct1 [OF SERVERS_ids_nonempty_unique] m] show ?thesis
    using m by simp
qed

text \<open>
  Claim C6. For every entry of the registry, the password field is present only if the
  save_password field of that entry is True.
\<close>

theorem SERVERS_password_only_if_saved:
  "\<forall>e \<in> set (dict_items SERVERS).
     dict_contains (snd e) ''password'' \<longrightarrow>
     dict_get (snd e) ''save_password'' = Some (PyBool True)"
  by (simp add: SERVERS_value SERVERS_1_value dict_items_def dict_get_def)

theorem SERVERS_password_only_if_saved_witness:
  "(''1'', dict_display SERVERS_1_display) \<in> set (dict_items SERVERS) \<and>
   dict_contains (dict_display SERVERS_1_display) ''password'' \<and>
   dict_get (dict_display SERVERS_1_display) ''save_password'' = Some (PyBool True)"
proof -
  have m: "(''1'', dict_display SERVERS_1_display) \<in> set (dict_items SERVERS)"
    by (simp add: SERVERS_value dict_items_def)
  have c: "dict_contains (dict_display SERVERS_1_display) ''password''"
    by (simp add: SERVERS_1_value dict_contains_def dict_keys_def)
  from bspec [OF SERVERS_password_only_if_saved m] c show ?thesis
    using m by simp
qed

text \<open>
  Claim C9. For every entry of the registry, the fields name, group_name, maintenance_db
  and username are strings and none of them is empty.
\<close>

theorem SERVERS_labels_nonempty:
  "\<forall>e \<in> set (dict_items SERVERS).
     (\<exists>s. dict_get (snd e) ''name'' = Some (PyStr s) \<and> s \<noteq> []) \<and>
     (\<exists>s. dict_get (snd e) ''group_name'' = Some (PyStr s) \<and> s \<noteq> []) \<and>
     (\<exists>s. dict_get (snd e) ''maintenance_db'' = Some (PyStr s) \<and> s \<noteq> []) \<and>
     (\<exists>s. dict_get (snd e) ''username'' = Some (PyStr s) \<and> s \<noteq> [])"
  by (simp add: SERVERS_value SERVERS_1_value dict_items_def dict_get_def)

theorem SERVERS_labels_nonempty_witness:
  "(''1'', dict_display SERVERS_1_display) \<in> set (dict_items SERVERS) \<and>
   (\<exists>s. dict_get (dict_display SERVERS_1_display) ''name'' = Some (PyStr s) \<and> s \<noteq> []) \<and>
   (\<exists>s. dict_get (dict_display SERVERS_1_display) ''group_name'' = Some (PyStr s) \<and> s \<noteq> []) \<and>
   (\<exists>s. dict_get (dict_display SERVERS_1_display) ''maintenance_db'' = Some (PyStr s) \<and> s \<noteq> []) \<and>
   (\<exists>s. dict_get (dict_display SERVERS_1_display) ''username'' = Some (PyStr s) \<and> s \<noteq> [])"
proof -
  have m: "(''1'', dict_display SERVERS_1_display) \<in> set (dict_items SERVERS)"
    by (simp add: SERVERS_value dict_items_def)
  from bspec [OF SERVERS_labels_nonempty m] show ?thesis
    using m by simp
qed

subsection \<open>The credential written in the source\<close>

text \<open>
  Claim C10. The single entry of the registry holds the secret as the literal "postgres":
  its password, its username and its host are all the string "postgres", and its
  save_password is True.
\<close>

theorem SERVERS_plaintext_default_credential:
  "\<exists>k p. dict_items SERVERS = [(k, p)] \<and>
     dict_get p ''password'' = Some (PyStr ''postgres'') \<and>
     dict_get p ''password'' = dict_get p ''username'' \<and>
     dict_get p ''username'' = dict_get p ''host'' \<and>
     dict_get p ''save_password'' = Some (PyBool True)"
  by (simp add: SERVERS_value SERVERS_1_value dict_items_def dict_get_def)

end
